theory Spec2Isabelle
  imports Complex_Main "HOL-Library.Sublist"
begin

section \<open>JavaScript values\<close>

text \<open>
  The handler of \<^verbatim>\<open>src/app/api/process-sales/route.js\<close> works on values that
  come out of \<^verbatim>\<open>JSON.parse\<close> (the webhook body, the CTM response body) and on
  \<^verbatim>\<open>undefined\<close>, the value of a property that is not there. A finite number is
  held as the rational it denotes and \<^verbatim>\<open>NaN\<close> apart; the program only tests
  numbers for truthiness, compares one with \<^verbatim>\<open>0\<close> and passes them on. A string is
  the list of its characters. An object is the list of its own properties in order, each
  name once; a property is read by its name.
\<close>

datatype jsval =
    JUndefined
  | JNull
  | JBool bool
  | JNum rat
  | JNaN
  | JStr string
  | JArr "jsval list"
  | JObj "(string \<times> jsval) list"

text \<open>What \<^verbatim>\<open>if (v)\<close>, \<^verbatim>\<open>!v\<close>, \<^verbatim>\<open>v && w\<close> and \<^verbatim>\<open>v || w\<close> test.\<close>

fun truthy :: "jsval \<Rightarrow> bool" where
  "truthy JUndefined = False"
| "truthy JNull = False"
| "truthy (JBool b) = b"
| "truthy (JNum n) = (n \<noteq> 0)"
| "truthy JNaN = False"
| "truthy (JStr s) = (s \<noteq> [])"
| "truthy (JArr xs) = True"
| "truthy (JObj props) = True"

fun nullish :: "jsval \<Rightarrow> bool" where
  "nullish JUndefined = True"
| "nullish JNull = True"
| "nullish v = False"

fun isArray :: "jsval \<Rightarrow> bool" where
  "isArray (JArr xs) = True"
| "isArray v = False"

text \<open>\<^verbatim>\<open>a || b\<close>, for a \<^verbatim>\<open>b\<close> whose evaluation has no effect.\<close>

definition orElse :: "jsval \<Rightarrow> jsval \<Rightarrow> jsval" where
  "orElse a b = (if truthy a then a else b)"

text \<open>
  \<^verbatim>\<open>v.k\<close> on a value that is neither \<^verbatim>\<open>null\<close> nor \<^verbatim>\<open>undefined\<close>: an own
  property of an object, the length of an array or of a string, and \<^verbatim>\<open>undefined\<close>
  otherwise. The names this program reads (\<^verbatim>\<open>phoneNumber\<close>, \<^verbatim>\<open>transactionId\<close>,
  \<^verbatim>\<open>totalAmountExcludingTax\<close>, \<^verbatim>\<open>calls\<close>, \<^verbatim>\<open>length\<close>, \<^verbatim>\<open>paid\<close>,
  \<^verbatim>\<open>source\<close>, \<^verbatim>\<open>medium\<close>, \<^verbatim>\<open>campaign\<close>) are neither array indices nor
  members of a built-in prototype, so nothing else is found under them.
\<close>

fun ownProp :: "jsval \<Rightarrow> string \<Rightarrow> jsval" where
  "ownProp (JObj props) k = (case map_of props k of Some v \<Rightarrow> v | None \<Rightarrow> JUndefined)"
| "ownProp (JArr xs) k = (if k = ''length'' then JNum (of_nat (length xs)) else JUndefined)"
| "ownProp (JStr s) k = (if k = ''length'' then JNum (of_nat (length s)) else JUndefined)"
| "ownProp v k = JUndefined"

subsection \<open>Errors\<close>

record axios_response =
  status :: int
  data :: jsval

text \<open>
  What the program can catch: a \<^verbatim>\<open>TypeError\<close> of the language, the
  \<^verbatim>\<open>SyntaxError\<close> of a body that is not JSON, and the error \<^verbatim>\<open>axios\<close> rejects
  with, which carries the response when the server answered.
\<close>

datatype js_error =
    TypeError string
  | SyntaxError string
  | AxiosError string "axios_response option"

fun message :: "js_error \<Rightarrow> string" where
  "message (TypeError m) = m"
| "message (SyntaxError m) = m"
| "message (AxiosError m r) = m"

fun response :: "js_error \<Rightarrow> axios_response option" where
  "response (AxiosError m r) = r"
| "response e = None"

text \<open>The message of reading property \<^verbatim>\<open>k\<close> of \<^verbatim>\<open>null\<close> or \<^verbatim>\<open>undefined\<close>.\<close>

definition cannotRead :: "jsval \<Rightarrow> string \<Rightarrow> string" where
  "cannotRead v k =
     ''Cannot read properties of '' @ (if v = JNull then ''null'' else ''undefined'')
       @ '' (reading '' @ [CHR 0x27] @ k @ [CHR 0x27] @ '')''"

text \<open>\<^verbatim>\<open>v.k\<close> and \<^verbatim>\<open>v?.k\<close> on any value.\<close>

definition getProp :: "jsval \<Rightarrow> string \<Rightarrow> js_error + jsval" where
  "getProp v k = (if nullish v then Inl (TypeError (cannotRead v k)) else Inr (ownProp v k))"

definition optProp :: "jsval \<Rightarrow> string \<Rightarrow> jsval" where
  "optProp v k = (if nullish v then JUndefined else ownProp v k)"

text \<open>\<^verbatim>\<open>v.a.b\<close>: both reads, the first failure thrown.\<close>

definition getPath :: "jsval \<Rightarrow> string \<Rightarrow> string \<Rightarrow> js_error + jsval" where
  "getPath v a b = (case getProp v a of Inl e \<Rightarrow> Inl e | Inr p \<Rightarrow> getProp p b)"

subsection \<open>Numbers in template literals\<close>

text \<open>
  \<^verbatim>\<open>`${Date.now()}`\<close> writes an integer in decimal, with a minus sign when it is
  negative (a time value is below \<open>10\<^sup>2\<^sup>1\<close> in size, so no exponent is printed).
\<close>

definition digit_char :: "nat \<Rightarrow> char" where
  "digit_char d = ''0123456789'' ! d"

fun showNat :: "nat \<Rightarrow> string" where
  "showNat n =
     (if n < 10 then [digit_char n] else showNat (n div 10) @ [digit_char (n mod 10)])"

declare showNat.simps [simp del]

definition showInt :: "int \<Rightarrow> string" where
  "showInt i = (if i < 0 then CHR ''-'' # showNat (nat (- i)) else showNat (nat i))"

text \<open>\<^verbatim>\<open>`${process.env.X}`\<close>: the variable's text, or \<^verbatim>\<open>undefined\<close> written out.\<close>

definition template :: "string option \<Rightarrow> string" where
  "template v = (case v of Some s \<Rightarrow> s | None \<Rightarrow> ''undefined'')"

section \<open>The world outside the handler\<close>

text \<open>
  An outbound request is what \<^verbatim>\<open>axios.post(url, data, {headers})\<close> is given. The
  environment holds the three configuration variables read at module load, the outcome
  \<^verbatim>\<open>axios.post\<close> has for each request, and the reading of \<^verbatim>\<open>Date.now()\<close>. What
  the program does to the outside is listed in order: console lines and outbound posts.
\<close>

record http_request =
  url :: string
  payload :: jsval
  headers :: "(string \<times> string) list"

datatype axios_result = Resolved axios_response | Rejected js_error

record env =
  GA4_MEASUREMENT_ID :: "string option"
  GA4_API_SECRET :: "string option"
  CTM_AUTH_STRING :: "string option"
  axios_post :: "http_request \<Rightarrow> axios_result"
  Date_now :: int

datatype effect =
    ConsoleLog "jsval list"
  | ConsoleError "jsval list"
  | AxiosPost http_request

fun outbound :: "effect list \<Rightarrow> http_request list" where
  "outbound [] = []"
| "outbound (AxiosPost r # es) = r # outbound es"
| "outbound (e # es) = outbound es"

section \<open>checkPhoneNumberInCTM\<close>

definition isDigit :: "char \<Rightarrow> bool" where
  "isDigit c = (c \<in> set ''0123456789'')"

text \<open>
  \<^verbatim>\<open>phoneNumber.replace(/\D/g, '')\<close>: from left to right, every character the class
  \<^verbatim>\<open>\D\<close> matches is replaced by the empty string, every other character stays.
\<close>

fun replaceNonDigits :: "string \<Rightarrow> string" where
  "replaceNonDigits [] = []"
| "replaceNonDigits (c # cs) = (if isDigit c then [c] else []) @ replaceNonDigits cs"

definition ctmUrl :: string where
  "ctmUrl = ''https://api.calltrackingmetrics.com/api/v1/accounts/540774/calls/search.json''"

definition ctmRequest :: "env \<Rightarrow> string \<Rightarrow> http_request" where
  \<open>ctmRequest e contactNumber =
     \<lparr> url = ctmUrl,
       payload = JObj
         [ (''filter'', JStr (''contact_number:"'' @ contactNumber @ ''"'')),
           (''sort_by'', JStr ''call_started_at''),
           (''sort_order'', JStr ''asc'') ],
       headers = [(''Authorization'', ''Basic '' @ template (CTM_AUTH_STRING e))] \<rparr>\<close>

text \<open>\<^verbatim>\<open>error.response?.data || error.message\<close>, the detail the catch block logs.\<close>

definition errorDetail :: "js_error \<Rightarrow> jsval" where
  "errorDetail error =
     orElse (case response error of Some r \<Rightarrow> data r | None \<Rightarrow> JUndefined)
            (JStr (message error))"

text \<open>
  Line 14 stands before the \<^verbatim>\<open>try\<close>: a \<^verbatim>\<open>phoneNumber\<close> that is not a string has
  no \<^verbatim>\<open>replace\<close> method, and the call throws to the caller. Inside the
  \<^verbatim>\<open>try\<close>, a rejected post is logged and answered with \<^verbatim>\<open>null\<close>.
\<close>

definition checkPhoneNumberInCTM :: "env \<Rightarrow> jsval \<Rightarrow> (js_error + jsval) \<times> effect list" where
  "checkPhoneNumberInCTM e phoneNumber =
     (if nullish phoneNumber then (Inl (TypeError (cannotRead phoneNumber ''replace'')), [])
      else case phoneNumber of
        JStr s \<Rightarrow>
          (let req = ctmRequest e (replaceNonDigits s) in
           case axios_post e req of
             Resolved r \<Rightarrow>
               if truthy (data r) \<and> truthy (ownProp (data r) ''calls'')
               then (Inr (ownProp (data r) ''calls''), [AxiosPost req])
               else (Inr JNull, [AxiosPost req])
           | Rejected error \<Rightarrow>
               (Inr JNull,
                [AxiosPost req,
                 ConsoleError [JStr ''Error searching phone number in CTM:'', errorDetail error]]))
      | _ \<Rightarrow> (Inl (TypeError ''phoneNumber.replace is not a function''), []))"

section \<open>determineAttribution\<close>

record attribution =
  source :: jsval
  medium :: jsval
  campaign :: jsval

definition noAttribution :: attribution where
  "noAttribution = \<lparr> source = JNull, medium = JNull, campaign = JNull \<rparr>"

text \<open>The test \<^verbatim>\<open>call?.paid?.source\<close> of the loop.\<close>

definition hasPaidSource :: "jsval \<Rightarrow> bool" where
  "hasPaidSource call = truthy (optProp (optProp call ''paid'') ''source'')"

text \<open>The \<^verbatim>\<open>for (const call of calls)\<close> loop with its early return.\<close>

fun scanCalls :: "jsval list \<Rightarrow> js_error + attribution" where
  "scanCalls [] = Inr noAttribution"
| "scanCalls (call # rest) =
     (if hasPaidSource call then
        (case getPath call ''paid'' ''source'' of Inl e \<Rightarrow> Inl e | Inr s \<Rightarrow>
          (case getPath call ''paid'' ''medium'' of Inl e \<Rightarrow> Inl e | Inr m \<Rightarrow>
            (case getPath call ''paid'' ''campaign'' of Inl e \<Rightarrow> Inl e | Inr c \<Rightarrow>
               Inr \<lparr> source = s, medium = m, campaign = orElse c JNull \<rparr>)))
      else scanCalls rest)"

definition determineAttribution :: "jsval \<Rightarrow> js_error + attribution" where
  "determineAttribution calls =
     (if \<not> isArray calls \<or> ownProp calls ''length'' = JNum 0 then Inr noAttribution
      else case calls of JArr xs \<Rightarrow> scanCalls xs | _ \<Rightarrow> Inr noAttribution)"

section \<open>sendToGA4\<close>

definition ga4Endpoint :: "env \<Rightarrow> string" where
  "ga4Endpoint e =
     ''https://www.google-analytics.com/mp/collect?measurement_id=''
       @ template (GA4_MEASUREMENT_ID e) @ ''&api_secret='' @ template (GA4_API_SECRET e)"

definition clientId :: "int \<Rightarrow> string" where
  "clientId now = ''12345678.'' @ showInt now"

definition ga4Payload :: "env \<Rightarrow> jsval \<Rightarrow> jsval \<Rightarrow> jsval \<Rightarrow> jsval \<Rightarrow> jsval \<Rightarrow> jsval" where
  "ga4Payload e transactionId revenue src med camp =
     JObj
       [ (''client_id'', JStr (clientId (Date_now e))),
         (''events'',
          JArr
            [ JObj
                [ (''name'', JStr ''phone_purchase''),
                  (''params'',
                   JObj
                     [ (''transaction_id'', transactionId),
                       (''value'', revenue),
                       (''currency'', JStr ''USD''),
                       (''source'', orElse src (JStr ''unknown'')),
                       (''medium'', orElse med (JStr ''unknown'')),
                       (''campaign'', orElse camp (JStr ''unknown'')) ]) ] ]) ]"

definition ga4Request :: "env \<Rightarrow> jsval \<Rightarrow> jsval \<Rightarrow> jsval \<Rightarrow> jsval \<Rightarrow> jsval \<Rightarrow> http_request" where
  "ga4Request e transactionId revenue src med camp =
     \<lparr> url = ga4Endpoint e,
       payload = ga4Payload e transactionId revenue src med camp,
       headers = [(''Content-Type'', ''application/json'')] \<rparr>"

definition sendToGA4 ::
  "env \<Rightarrow> jsval \<Rightarrow> jsval \<Rightarrow> jsval \<Rightarrow> jsval \<Rightarrow> jsval \<Rightarrow> (js_error + axios_response) \<times> effect list"
where
  "sendToGA4 e transactionId revenue src med camp =
     (let req = ga4Request e transactionId revenue src med camp in
      case axios_post e req of
        Resolved r \<Rightarrow> (Inr r, [AxiosPost req])
      | Rejected error \<Rightarrow>
          (Inl error,
           [AxiosPost req,
            ConsoleError [JStr ''Error sending data to GA4:'', JStr (message error)]]))"

section \<open>The POST handler\<close>

text \<open>
  A request is what \<^verbatim>\<open>await request.json()\<close> gives: the parsed body, or the error
  it rejects with. A response is \<^verbatim>\<open>new NextResponse(body, {status})\<close>;
  \<^verbatim>\<open>NextResponse.json(obj, {status})\<close> is the one whose body is \<^verbatim>\<open>obj\<close>.
\<close>

record request =
  json :: "js_error + jsval"

datatype next_response = NextResponse (resp_body: "jsval option") (resp_status: int)

definition NextResponse_json :: "jsval \<Rightarrow> int \<Rightarrow> next_response" where
  "NextResponse_json obj st = NextResponse (Some obj) st"

text \<open>
  The body of the \<^verbatim>\<open>try\<close> block: the response it returns, or the error it throws,
  with the effects up to there. After \<^verbatim>\<open>webhookData.phoneNumber\<close> has been read,
  \<^verbatim>\<open>webhookData\<close> is known not to be \<^verbatim>\<open>null\<close>, and a truthy \<^verbatim>\<open>ctmData\<close> is not
  either, so the later reads cannot throw.
\<close>

definition tryBlock :: "env \<Rightarrow> request \<Rightarrow> (js_error + next_response) \<times> effect list" where
  "tryBlock e req =
     (case json req of
        Inl err \<Rightarrow> (Inl err, [])
      | Inr webhookData \<Rightarrow>
          (let t0 = [ConsoleLog [JStr ''Received webhook data:'', webhookData]] in
           case getProp webhookData ''phoneNumber'' of
             Inl err \<Rightarrow> (Inl err, t0)
           | Inr phoneNumber \<Rightarrow>
               if \<not> truthy phoneNumber then
                 (Inr (NextResponse_json (JObj [(''message'', JStr ''No phone number found'')]) 404),
                  t0 @ [ConsoleLog [JStr ''No phone number found. Skipping.'']])
               else
                 (let transactionId = ownProp webhookData ''transactionId'';
                      revenue = ownProp webhookData ''totalAmountExcludingTax'' in
                  case checkPhoneNumberInCTM e phoneNumber of
                    (Inl err, t1) \<Rightarrow> (Inl err, t0 @ t1)
                  | (Inr ctmData, t1) \<Rightarrow>
                      (let t2 = t0 @ t1 @ [ConsoleLog [JStr ''CTM Data:'', ctmData]] in
                       if \<not> truthy ctmData \<or> ownProp ctmData ''length'' = JNum 0 then
                         (Inr (NextResponse None 204),
                          t2 @ [ConsoleLog [JStr ''No matching phone number in CTM. Skipping.'']])
                       else
                         case determineAttribution ctmData of
                           Inl err \<Rightarrow> (Inl err, t2)
                         | Inr a \<Rightarrow>
                             (case sendToGA4 e transactionId revenue
                                     (source a) (medium a) (campaign a) of
                                (Inl err, t3) \<Rightarrow> (Inl err, t2 @ t3)
                              | (Inr ga4Response, t3) \<Rightarrow>
                                  (Inr (NextResponse_json
                                         (JObj
                                            [ (''message'', JStr ''Data successfully sent to GA4''),
                                              (''ga4Status'', JNum (of_int (status ga4Response))) ])
                                         200),
                                   t2 @ t3
                                     @ [ConsoleLog
                                          [JStr ''GA4 Response status:'',
                                           JNum (of_int (status ga4Response))]]))))))"

definition POST :: "env \<Rightarrow> request \<Rightarrow> next_response \<times> effect list" where
  "POST e req =
     (case tryBlock e req of
        (Inr resp, t) \<Rightarrow> (resp, t)
      | (Inl error, t) \<Rightarrow>
          (NextResponse_json
             (JObj
                [ (''message'', JStr ''Internal Server Error''),
                  (''error'', JStr (message error)) ])
             500,
           t @ [ConsoleError [JStr ''Error processing webhook:'', JStr (message error)]]))"

section \<open>Statements and example data\<close>

subsection \<open>Reading records, events and posts\<close>

text \<open>The records of an input: the elements of an array, none for any other value.\<close>

definition elements :: "jsval \<Rightarrow> jsval list" where
  "elements v = (case v of JArr xs \<Rightarrow> xs | _ \<Rightarrow> [])"

text \<open>The paid field \<^verbatim>\<open>k\<close> of a call that has a paid source.\<close>

definition paidField :: "jsval \<Rightarrow> string \<Rightarrow> jsval" where
  "paidField call k = ownProp (ownProp call ''paid'') k"

text \<open>An object without its property \<^verbatim>\<open>k\<close>.\<close>

definition removeProp :: "string \<Rightarrow> (string \<times> jsval) list \<Rightarrow> (string \<times> jsval) list" where
  "removeProp k props = filter (\<lambda>p. fst p \<noteq> k) props"

text \<open>The parameter \<^verbatim>\<open>k\<close> of each event of a GA4 payload.\<close>

definition eventParam :: "jsval \<Rightarrow> string \<Rightarrow> jsval list" where
  "eventParam body k =
     map (\<lambda>ev. ownProp (ownProp ev ''params'') k) (elements (ownProp body ''events''))"

text \<open>
  The client identifiers of the GA4 events in a list of effects: of every post to the
  collection endpoint, the \<^verbatim>\<open>client_id\<close> of its payload.
\<close>

definition ga4ClientIds :: "env \<Rightarrow> effect list \<Rightarrow> jsval list" where
  "ga4ClientIds e t =
     map (\<lambda>r. ownProp (payload r) ''client_id'')
       (filter (\<lambda>r. url r = ga4Endpoint e) (outbound t))"

subsection \<open>Two claims in their own words\<close>

text \<open>
  The result of the attribution resolver as claim C1 words it: the campaign of the
  matching record, replaced by \<^verbatim>\<open>null\<close> when it is not set there.
\<close>

definition attribution_as_claimed :: "jsval \<Rightarrow> attribution" where
  "attribution_as_claimed calls =
     (case find hasPaidSource (elements calls) of
        Some call \<Rightarrow>
          \<lparr> source = paidField call ''source'',
            medium = paidField call ''medium'',
            campaign =
              (if nullish (paidField call ''campaign'') then JNull
               else paidField call ''campaign'') \<rparr>
      | None \<Rightarrow> noAttribution)"

text \<open>
  The GA4 payload as claim C5 words it: source, medium and campaign replaced by
  \<^verbatim>\<open>unknown\<close> when \<^verbatim>\<open>null\<close> or absent.
\<close>

definition unknownWhenAbsent :: "jsval \<Rightarrow> jsval" where
  "unknownWhenAbsent v = (if nullish v then JStr ''unknown'' else v)"

definition ga4Payload_as_claimed ::
  "env \<Rightarrow> jsval \<Rightarrow> jsval \<Rightarrow> jsval \<Rightarrow> jsval \<Rightarrow> jsval \<Rightarrow> jsval"
where
  "ga4Payload_as_claimed e transactionId revenue src med camp =
     JObj
       [ (''client_id'', JStr (clientId (Date_now e))),
         (''events'',
          JArr
            [ JObj
                [ (''name'', JStr ''phone_purchase''),
                  (''params'',
                   JObj
                     [ (''transaction_id'', transactionId),
                       (''value'', revenue),
                       (''currency'', JStr ''USD''),
                       (''source'', unknownWhenAbsent src),
                       (''medium'', unknownWhenAbsent med),
                       (''campaign'', unknownWhenAbsent camp) ]) ] ]) ]"

subsection \<open>Example data\<close>

text \<open>
  A sale notification, CTM call records with paid attribution, and a world in which the
  CTM search and the GA4 collection each have a fixed outcome and the clock a fixed
  reading.
\<close>

definition sale :: jsval where
  "sale =
     JObj
       [ (''phoneNumber'', JStr ''+1 (555) 123-4567''),
         (''transactionId'', JStr ''T-1001''),
         (''totalAmountExcludingTax'', JNum 250) ]"

definition sale_request :: request where
  "sale_request = \<lparr> json = Inr sale \<rparr>"

definition sale_without_phone :: jsval where
  "sale_without_phone =
     JObj [(''transactionId'', JStr ''T-1001''), (''totalAmountExcludingTax'', JNum 250)]"

definition sale_empty_phone :: "(string \<times> jsval) list" where
  "sale_empty_phone =
     [ (''phoneNumber'', JStr []),
       (''transactionId'', JStr ''T-1001''),
       (''totalAmountExcludingTax'', JNum 250) ]"

definition bad_json_request :: request where
  "bad_json_request = \<lparr> json = Inl (SyntaxError ''Unexpected end of JSON input'') \<rparr>"

definition call_bing :: jsval where
  "call_bing = JObj [(''paid'', JObj [(''source'', JStr ''bing''), (''medium'', JStr ''organic'')])]"

definition call_empty_campaign :: jsval where
  "call_empty_campaign =
     JObj
       [(''paid'',
         JObj [(''source'', JStr ''google''), (''medium'', JStr ''cpc''), (''campaign'', JStr [])])]"

definition world :: "axios_result \<Rightarrow> axios_result \<Rightarrow> int \<Rightarrow> env" where
  "world ctm ga4 now =
     \<lparr> GA4_MEASUREMENT_ID = Some ''G-TEST'',
       GA4_API_SECRET = Some ''s3cret'',
       CTM_AUTH_STRING = Some ''dXNlcjpwYXNz'',
       axios_post = (\<lambda>r. if url r = ctmUrl then ctm else ga4),
       Date_now = now \<rparr>"

definition ctm_found :: axios_result where
  "ctm_found = Resolved \<lparr> status = 200, data = JObj [(''calls'', JArr [call_bing])] \<rparr>"

definition network_error :: js_error where
  "network_error = AxiosError ''Network Error'' None"

definition server_error :: js_error where
  "server_error =
     AxiosError ''Request failed with status code 500''
       (Some \<lparr> status = 500, data = JStr ''Internal error'' \<rparr>)"

definition ga4_accepted :: axios_response where
  "ga4_accepted = \<lparr> status = 204, data = JStr [] \<rparr>"

definition instant :: int where
  "instant = 1762063200000"

definition ga4_ok :: axios_response where
  "ga4_ok = \<lparr> status = 200, data = JObj [] \<rparr>"

subsection \<open>Reading a decimal numeral back\<close>

definition digit_val :: "char \<Rightarrow> nat" where
  "digit_val c = of_char c - 48"

definition readNat :: "string \<Rightarrow> nat" where
  "readNat cs = foldl (\<lambda>acc c. 10 * acc + digit_val c) 0 cs"

section \<open>Phone number normalisation\<close>

lemma replaceNonDigits_filter: "replaceNonDigits s = filter isDigit s"
  by (induction s) simp_all

lemma checkPhoneNumberInCTM_outbound:
  "outbound (snd (checkPhoneNumberInCTM e p)) =
     (case p of JStr s \<Rightarrow> [ctmRequest e (replaceNonDigits s)] | _ \<Rightarrow> [])"
  by (cases p) (simp_all add: checkPhoneNumberInCTM_def Let_def split: axios_result.splits)

text \<open>
  Claim C7. For every phone number string the normalisation keeps exactly the digits, in
  their order: the result is the sub-list of the digit characters, every character of
  it is a digit, and it is the contact number of the one search request the lookup
  posts. \<^verbatim>\<open>+1 (555) 123-4567\<close> normalises to \<^verbatim>\<open>15551234567\<close>.
\<close>

theorem normalization_keeps_digits_in_order:
  "replaceNonDigits s = filter isDigit s
   \<and> subseq (replaceNonDigits s) s
   \<and> list_all isDigit (replaceNonDigits s)
   \<and> outbound (snd (checkPhoneNumberInCTM e (JStr s))) = [ctmRequest e (filter isDigit s)]
   \<and> replaceNonDigits ''+1 (555) 123-4567'' = ''15551234567''"
  by (simp add: replaceNonDigits_filter checkPhoneNumberInCTM_outbound isDigit_def list_all_iff)

theorem normalization_keeps_digits_in_order_witness:
  "replaceNonDigits ''(020) 7946-0018 ext. 9'' = ''020794600189''
   \<and> subseq ''020794600189'' ''(020) 7946-0018 ext. 9''"
  using normalization_keeps_digits_in_order
    [of "''(020) 7946-0018 ext. 9''" "world ctm_found (Resolved ga4_accepted) instant"]
  by (simp add: isDigit_def)

section \<open>Attribution\<close>

lemma getPath_paid: "hasPaidSource call \<Longrightarrow> getPath call ''paid'' k = Inr (paidField call k)"
  by (auto simp: hasPaidSource_def paidField_def getPath_def getProp_def optProp_def
      split: if_splits)

lemma scanCalls_find:
  "scanCalls xs =
     Inr (case find hasPaidSource xs of
            Some call \<Rightarrow>
              \<lparr> source = paidField call ''source'',
                medium = paidField call ''medium'',
                campaign = orElse (paidField call ''campaign'') JNull \<rparr>
          | None \<Rightarrow> noAttribution)"
  by (induction xs) (simp_all add: getPath_paid)

lemma determineAttribution_find:
  "determineAttribution calls =
     Inr (case find hasPaidSource (elements calls) of
            Some call \<Rightarrow>
              \<lparr> source = paidField call ''source'',
                medium = paidField call ''medium'',
                campaign = orElse (paidField call ''campaign'') JNull \<rparr>
          | None \<Rightarrow> noAttribution)"
  by (cases calls) (simp_all add: determineAttribution_def elements_def scanCalls_find)

lemma determineAttribution_total: "\<exists>a. determineAttribution calls = Inr a"
  by (simp add: determineAttribution_find)

lemma attribution_bing:
  "determineAttribution (JArr [call_bing]) =
     Inr \<lparr> source = JStr ''bing'', medium = JStr ''organic'', campaign = JNull \<rparr>"
  by (simp add: determineAttribution_find elements_def hasPaidSource_def paidField_def
      optProp_def orElse_def call_bing_def)

text \<open>
  Claim C1, as amended. For every input value \<^verbatim>\<open>determineAttribution\<close> returns
  normally, with no effect, the source, medium and campaign of the first record, in the
  given order, whose \<^verbatim>\<open>paid.source\<close> is truthy (for a string: present and not
  empty), the campaign replaced by \<^verbatim>\<open>null\<close> whenever it is falsy: not set,
  \<^verbatim>\<open>null\<close>, or the empty string. An input that is not an array, an empty array
  and an array with no such record give \<^verbatim>\<open>null\<close> in all three places.
\<close>

theorem determineAttribution_first_paid_source:
  "determineAttribution calls =
     Inr (case find hasPaidSource (elements calls) of
            Some call \<Rightarrow>
              \<lparr> source = paidField call ''source'',
                medium = paidField call ''medium'',
                campaign =
                  (if truthy (paidField call ''campaign'') then paidField call ''campaign''
                   else JNull) \<rparr>
          | None \<Rightarrow> noAttribution)"
  by (simp add: determineAttribution_find orElse_def split: option.splits)

theorem determineAttribution_first_paid_source_witness:
  "determineAttribution
     (JArr [JObj [], JObj [(''paid'', JObj [(''source'', JStr ''google''), (''medium'', JStr ''cpc'')])]])
     = Inr \<lparr> source = JStr ''google'', medium = JStr ''cpc'', campaign = JNull \<rparr>
   \<and> determineAttribution (JArr []) = Inr noAttribution
   \<and> determineAttribution JUndefined = Inr noAttribution"
  using determineAttribution_first_paid_source
    [of "JArr [JObj [], JObj [(''paid'', JObj [(''source'', JStr ''google''), (''medium'', JStr ''cpc'')])]]"]
    determineAttribution_first_paid_source [of "JArr []"]
    determineAttribution_first_paid_source [of JUndefined]
  by (simp add: elements_def hasPaidSource_def paidField_def optProp_def)

text \<open>
  The claim as stated fails on a record whose campaign is set to the empty string: the
  record's campaign is \<^verbatim>\<open>""\<close>, the result's is \<^verbatim>\<open>null\<close>.
\<close>

theorem determineAttribution_empty_campaign_counterexample:
  "determineAttribution (JArr [call_empty_campaign])
     = Inr \<lparr> source = JStr ''google'', medium = JStr ''cpc'', campaign = JNull \<rparr>
   \<and> attribution_as_claimed (JArr [call_empty_campaign])
     = \<lparr> source = JStr ''google'', medium = JStr ''cpc'', campaign = JStr [] \<rparr>
   \<and> determineAttribution (JArr [call_empty_campaign])
     \<noteq> Inr (attribution_as_claimed (JArr [call_empty_campaign]))"
  by (simp add: determineAttribution_find attribution_as_claimed_def elements_def
      hasPaidSource_def paidField_def optProp_def orElse_def call_empty_campaign_def)

section \<open>The handler, branch by branch\<close>

lemma outbound_append: "outbound (xs @ ys) = outbound xs @ outbound ys"
  by (induction xs rule: outbound.induct) simp_all

lemma ctmUrl_not_ga4Endpoint: "ctmUrl \<noteq> ga4Endpoint e"
  by (simp add: ctmUrl_def ga4Endpoint_def)

lemma sendToGA4_outbound:
  "outbound (snd (sendToGA4 e transactionId revenue s m c))
     = [ga4Request e transactionId revenue s m c]"
  by (simp add: sendToGA4_def Let_def split: axios_result.splits)

lemma checkPhoneNumberInCTM_rejected:
  "axios_post e (ctmRequest e (replaceNonDigits s)) = Rejected err \<Longrightarrow>
   fst (checkPhoneNumberInCTM e (JStr s)) = Inr JNull"
  by (simp add: checkPhoneNumberInCTM_def Let_def)

lemma POST_parse_error:
  "json req = Inl err \<Longrightarrow>
   POST e req =
     (NextResponse_json
        (JObj [(''message'', JStr ''Internal Server Error''), (''error'', JStr (message err))])
        500,
      [ConsoleError [JStr ''Error processing webhook:'', JStr (message err)]])"
  by (simp add: POST_def tryBlock_def)

lemma POST_nullish_body:
  "json req = Inr w \<Longrightarrow> nullish w \<Longrightarrow>
   POST e req =
     (NextResponse_json
        (JObj
           [ (''message'', JStr ''Internal Server Error''),
             (''error'', JStr (cannotRead w ''phoneNumber'')) ])
        500,
      [ ConsoleLog [JStr ''Received webhook data:'', w],
        ConsoleError [JStr ''Error processing webhook:'', JStr (cannotRead w ''phoneNumber'')] ])"
  by (simp add: POST_def tryBlock_def getProp_def)

lemma POST_falsy_phone:
  "json req = Inr w \<Longrightarrow> \<not> nullish w \<Longrightarrow> \<not> truthy (ownProp w ''phoneNumber'') \<Longrightarrow>
   POST e req =
     (NextResponse_json (JObj [(''message'', JStr ''No phone number found'')]) 404,
      [ ConsoleLog [JStr ''Received webhook data:'', w],
        ConsoleLog [JStr ''No phone number found. Skipping.''] ])"
  by (simp add: POST_def tryBlock_def getProp_def)

lemma POST_no_match:
  "json req = Inr w \<Longrightarrow> \<not> nullish w \<Longrightarrow> truthy (ownProp w ''phoneNumber'') \<Longrightarrow>
   checkPhoneNumberInCTM e (ownProp w ''phoneNumber'') = (Inr ctmData, t) \<Longrightarrow>
   \<not> truthy ctmData \<or> ownProp ctmData ''length'' = JNum 0 \<Longrightarrow>
   POST e req =
     (NextResponse None 204,
      ConsoleLog [JStr ''Received webhook data:'', w] # t @
      [ ConsoleLog [JStr ''CTM Data:'', ctmData],
        ConsoleLog [JStr ''No matching phone number in CTM. Skipping.''] ])"
  by (simp add: POST_def tryBlock_def getProp_def)

lemma POST_lookup_throws:
  "json req = Inr w \<Longrightarrow> \<not> nullish w \<Longrightarrow> truthy (ownProp w ''phoneNumber'') \<Longrightarrow>
   checkPhoneNumberInCTM e (ownProp w ''phoneNumber'') = (Inl err, t) \<Longrightarrow>
   POST e req =
     (NextResponse_json
        (JObj [(''message'', JStr ''Internal Server Error''), (''error'', JStr (message err))])
        500,
      ConsoleLog [JStr ''Received webhook data:'', w] # t @
      [ConsoleError [JStr ''Error processing webhook:'', JStr (message err)]])"
  by (simp add: POST_def tryBlock_def getProp_def)

lemma POST_forwarded:
  "json req = Inr w \<Longrightarrow> \<not> nullish w \<Longrightarrow> truthy (ownProp w ''phoneNumber'') \<Longrightarrow>
   checkPhoneNumberInCTM e (ownProp w ''phoneNumber'') = (Inr ctmData, t) \<Longrightarrow>
   truthy ctmData \<Longrightarrow> ownProp ctmData ''length'' \<noteq> JNum 0 \<Longrightarrow>
   determineAttribution ctmData = Inr a \<Longrightarrow>
   sendToGA4 e (ownProp w ''transactionId'') (ownProp w ''totalAmountExcludingTax'')
     (source a) (medium a) (campaign a) = (Inr g, t3) \<Longrightarrow>
   POST e req =
     (NextResponse_json
        (JObj
           [ (''message'', JStr ''Data successfully sent to GA4''),
             (''ga4Status'', JNum (of_int (status g))) ])
        200,
      ConsoleLog [JStr ''Received webhook data:'', w] # t @
      [ConsoleLog [JStr ''CTM Data:'', ctmData]] @ t3 @
      [ConsoleLog [JStr ''GA4 Response status:'', JNum (of_int (status g))]])"
  by (simp add: POST_def tryBlock_def getProp_def)

lemma POST_forward_failed:
  "json req = Inr w \<Longrightarrow> \<not> nullish w \<Longrightarrow> truthy (ownProp w ''phoneNumber'') \<Longrightarrow>
   checkPhoneNumberInCTM e (ownProp w ''phoneNumber'') = (Inr ctmData, t) \<Longrightarrow>
   truthy ctmData \<Longrightarrow> ownProp ctmData ''length'' \<noteq> JNum 0 \<Longrightarrow>
   determineAttribution ctmData = Inr a \<Longrightarrow>
   sendToGA4 e (ownProp w ''transactionId'') (ownProp w ''totalAmountExcludingTax'')
     (source a) (medium a) (campaign a) = (Inl err, t3) \<Longrightarrow>
   POST e req =
     (NextResponse_json
        (JObj [(''message'', JStr ''Internal Server Error''), (''error'', JStr (message err))])
        500,
      ConsoleLog [JStr ''Received webhook data:'', w] # t @
      [ConsoleLog [JStr ''CTM Data:'', ctmData]] @ t3 @
      [ConsoleError [JStr ''Error processing webhook:'', JStr (message err)]])"
  by (simp add: POST_def tryBlock_def getProp_def)

lemma checkPhoneNumberInCTM_pair:
  "fst (checkPhoneNumberInCTM e p) = r \<Longrightarrow> \<exists>t. checkPhoneNumberInCTM e p = (r, t)"
  by (cases "checkPhoneNumberInCTM e p") simp

lemma checkPhoneNumberInCTM_Inr:
  "checkPhoneNumberInCTM e p = (Inr d, t) \<Longrightarrow>
   \<exists>s. p = JStr s \<and> outbound t = [ctmRequest e (replaceNonDigits s)]"
  using checkPhoneNumberInCTM_outbound [of e p]
  by (cases p) (auto simp: checkPhoneNumberInCTM_def)

lemma ga4_not_in_lookup:
  "ga4Endpoint e \<notin> url ` set (outbound (snd (checkPhoneNumberInCTM e p)))"
  using ctmUrl_not_ga4Endpoint [of e]
  by (cases p) (auto simp: checkPhoneNumberInCTM_outbound ctmRequest_def)

lemma sendToGA4_pair:
  "fst (sendToGA4 e a b c d f) = r \<Longrightarrow> \<exists>t. sendToGA4 e a b c d f = (r, t)"
  by (cases "sendToGA4 e a b c d f") simp

lemma sendToGA4_trace:
  "sendToGA4 e tid revenue s m c = (r, t) \<Longrightarrow> outbound t = [ga4Request e tid revenue s m c]"
  using sendToGA4_outbound [of e tid revenue s m c] by simp

lemma sendToGA4_rejected:
  "axios_post e (ga4Request e transactionId revenue s m c) = Rejected err \<Longrightarrow>
   fst (sendToGA4 e transactionId revenue s m c) = Inl err"
  by (simp add: sendToGA4_def Let_def)

lemma sendToGA4_resolved:
  "axios_post e (ga4Request e transactionId revenue s m c) = Resolved g \<Longrightarrow>
   fst (sendToGA4 e transactionId revenue s m c) = Inr g"
  by (simp add: sendToGA4_def Let_def)

lemma map_of_removeProp: "map_of (removeProp k props) k = None"
  by (induction props) (simp_all add: removeProp_def)

subsection \<open>The example worlds\<close>

lemma digits_sale: "replaceNonDigits ''+1 (555) 123-4567'' = ''15551234567''"
  by (simp add: isDigit_def)

lemma world_ctm: "axios_post (world c g n) (ctmRequest (world c g n) s) = c"
  by (simp add: world_def ctmRequest_def)

lemma world_ga4: "axios_post (world c g n) (ga4Request (world c g n) t r s m k) = g"
  using ctmUrl_not_ga4Endpoint [of "world c g n"]
  by (simp add: world_def ga4Request_def)

lemma lookup_found:
  "fst (checkPhoneNumberInCTM (world ctm_found g n) (JStr s)) = Inr (JArr [call_bing])"
  by (simp add: checkPhoneNumberInCTM_def Let_def world_ctm) (simp add: ctm_found_def)

lemma sale_request_json: "json sale_request = Inr sale"
  by (simp add: sale_request_def)

lemma sale_not_nullish: "\<not> nullish sale"
  by (simp add: sale_def)

lemma sale_phone: "ownProp sale ''phoneNumber'' = JStr ''+1 (555) 123-4567''"
  by (simp add: sale_def)

lemma sale_transaction: "ownProp sale ''transactionId'' = JStr ''T-1001''"
  by (simp add: sale_def)

lemma sale_revenue: "ownProp sale ''totalAmountExcludingTax'' = JNum 250"
  by (simp add: sale_def)

section \<open>Responses of the handler\<close>

text \<open>
  Claim C10. When the request body is not valid JSON, \<^verbatim>\<open>request.json()\<close> fails
  inside the \<^verbatim>\<open>try\<close> block before \<^verbatim>\<open>phoneNumber\<close> is looked at: the response
  is 500 with the message \<^verbatim>\<open>Internal Server Error\<close> and the parse error's message,
  not 404, and no outbound call is made.
\<close>

theorem invalid_json_responds_500:
  assumes "json req = Inl (SyntaxError m)"
  shows "fst (POST e req) =
           NextResponse_json
             (JObj [(''message'', JStr ''Internal Server Error''), (''error'', JStr m)]) 500
         \<and> outbound (snd (POST e req)) = []"
  using assms by (simp add: POST_parse_error)

theorem invalid_json_responds_500_witness:
  "json bad_json_request = Inl (SyntaxError ''Unexpected end of JSON input'')
   \<and> fst (POST (world ctm_found (Resolved ga4_accepted) instant) bad_json_request) =
       NextResponse_json
         (JObj
            [ (''message'', JStr ''Internal Server Error''),
              (''error'', JStr ''Unexpected end of JSON input'') ])
         500
   \<and> outbound (snd (POST (world ctm_found (Resolved ga4_accepted) instant) bad_json_request)) = []"
  using invalid_json_responds_500 [of bad_json_request "''Unexpected end of JSON input''"
      "world ctm_found (Resolved ga4_accepted) instant"]
  by (simp add: bad_json_request_def)

text \<open>
  Claim C4, as amended. For every inbound payload other than the JSON literal
  \<^verbatim>\<open>null\<close> in which \<^verbatim>\<open>phoneNumber\<close> is missing, the handler responds 404 with
  the body \<^verbatim>\<open>{message: "No phone number found"}\<close> and makes no outbound call.
\<close>

theorem missing_phoneNumber_responds_404:
  assumes "json req = Inr webhookData" and "\<not> nullish webhookData"
    and "ownProp webhookData ''phoneNumber'' = JUndefined"
  shows "fst (POST e req) =
           NextResponse_json (JObj [(''message'', JStr ''No phone number found'')]) 404
         \<and> outbound (snd (POST e req)) = []"
  using assms by (simp add: POST_falsy_phone)

theorem missing_phoneNumber_responds_404_witness:
  "json \<lparr> json = Inr sale_without_phone \<rparr> = Inr sale_without_phone
   \<and> \<not> nullish sale_without_phone
   \<and> ownProp sale_without_phone ''phoneNumber'' = JUndefined
   \<and> fst (POST (world ctm_found (Resolved ga4_accepted) instant)
           \<lparr> json = Inr sale_without_phone \<rparr>)
       = NextResponse_json (JObj [(''message'', JStr ''No phone number found'')]) 404
   \<and> outbound (snd (POST (world ctm_found (Resolved ga4_accepted) instant)
                      \<lparr> json = Inr sale_without_phone \<rparr>)) = []"
  using missing_phoneNumber_responds_404 [of "\<lparr> json = Inr sale_without_phone \<rparr>"
      sale_without_phone "world ctm_found (Resolved ga4_accepted) instant"]
  by (simp add: sale_without_phone_def)

text \<open>
  The claim as stated fails on the body \<^verbatim>\<open>null\<close>: it is valid JSON and has no
  \<^verbatim>\<open>phoneNumber\<close>, reading the property throws, and the response is 500.
\<close>

theorem null_payload_counterexample:
  "optProp JNull ''phoneNumber'' = JUndefined
   \<and> fst (POST (world ctm_found (Resolved ga4_accepted) instant) \<lparr> json = Inr JNull \<rparr>)
       = NextResponse_json
           (JObj
              [ (''message'', JStr ''Internal Server Error''),
                (''error'', JStr ''Cannot read properties of null (reading 'phoneNumber')'') ])
           500
   \<and> fst (POST (world ctm_found (Resolved ga4_accepted) instant) \<lparr> json = Inr JNull \<rparr>)
       \<noteq> NextResponse_json (JObj [(''message'', JStr ''No phone number found'')]) 404"
  by (simp add: POST_nullish_body optProp_def NextResponse_json_def cannotRead_def)

text \<open>
  Claim C9. A payload in which \<^verbatim>\<open>phoneNumber\<close> is present but falsy (the empty
  string, \<^verbatim>\<open>null\<close>, \<^verbatim>\<open>false\<close>, \<^verbatim>\<open>0\<close>) gets the response of a payload
  without it: 404 with \<^verbatim>\<open>{message: "No phone number found"}\<close> and no outbound
  call, the same response and the same outbound calls as for the payload with the
  property removed.
\<close>

theorem falsy_phoneNumber_responds_404:
  assumes "json req = Inr (JObj props)" and "map_of props ''phoneNumber'' = Some v"
    and "\<not> truthy v"
  shows "fst (POST e req) =
           NextResponse_json (JObj [(''message'', JStr ''No phone number found'')]) 404
         \<and> outbound (snd (POST e req)) = []
         \<and> fst (POST e req)
             = fst (POST e \<lparr> json = Inr (JObj (removeProp ''phoneNumber'' props)) \<rparr>)
         \<and> outbound (snd (POST e req))
             = outbound (snd (POST e \<lparr> json = Inr (JObj (removeProp ''phoneNumber'' props)) \<rparr>))"
proof -
  have present: "POST e req =
     (NextResponse_json (JObj [(''message'', JStr ''No phone number found'')]) 404,
      [ ConsoleLog [JStr ''Received webhook data:'', JObj props],
        ConsoleLog [JStr ''No phone number found. Skipping.''] ])"
    using assms by (intro POST_falsy_phone) simp_all
  have missing: "POST e \<lparr> json = Inr (JObj (removeProp ''phoneNumber'' props)) \<rparr> =
     (NextResponse_json (JObj [(''message'', JStr ''No phone number found'')]) 404,
      [ ConsoleLog [JStr ''Received webhook data:'', JObj (removeProp ''phoneNumber'' props)],
        ConsoleLog [JStr ''No phone number found. Skipping.''] ])"
    by (intro POST_falsy_phone) (simp_all add: map_of_removeProp)
  show ?thesis by (simp add: present missing)
qed

theorem falsy_phoneNumber_responds_404_witness:
  "json \<lparr> json = Inr (JObj sale_empty_phone) \<rparr> = Inr (JObj sale_empty_phone)
   \<and> map_of sale_empty_phone ''phoneNumber'' = Some (JStr [])
   \<and> \<not> truthy (JStr [])
   \<and> fst (POST (world ctm_found (Resolved ga4_accepted) instant)
           \<lparr> json = Inr (JObj sale_empty_phone) \<rparr>)
       = NextResponse_json (JObj [(''message'', JStr ''No phone number found'')]) 404
   \<and> outbound (snd (POST (world ctm_found (Resolved ga4_accepted) instant)
                      \<lparr> json = Inr (JObj sale_empty_phone) \<rparr>)) = []"
proof -
  have h1: "json \<lparr> json = Inr (JObj sale_empty_phone) \<rparr> = Inr (JObj sale_empty_phone)"
    by simp
  have h2: "map_of sale_empty_phone ''phoneNumber'' = Some (JStr [])"
    by (simp add: sale_empty_phone_def)
  have h3: "\<not> truthy (JStr [])"
    by simp
  note r = falsy_phoneNumber_responds_404 [OF h1 h2 h3,
      of "world ctm_found (Resolved ga4_accepted) instant"]
  from r have r1: "fst (POST (world ctm_found (Resolved ga4_accepted) instant)
           \<lparr> json = Inr (JObj sale_empty_phone) \<rparr>)
       = NextResponse_json (JObj [(''message'', JStr ''No phone number found'')]) 404"
    by (rule conjunct1)
  from r have r2: "outbound (snd (POST (world ctm_found (Resolved ga4_accepted) instant)
                      \<lparr> json = Inr (JObj sale_empty_phone) \<rparr>)) = []"
    by (rule conjunct1 [OF conjunct2])
  show ?thesis using h1 h2 h3 r1 r2 by (intro conjI)
qed

text \<open>
  Claim C2. For every request whose payload has a truthy \<^verbatim>\<open>phoneNumber\<close>, when
  the CTM lookup returns \<^verbatim>\<open>null\<close> or an empty list of calls, and in particular
  when the search request is rejected (a transport or a server error, which the lookup
  catches and answers with \<^verbatim>\<open>null\<close>), the handler responds 204 with no body; the
  only outbound calls are those of the lookup, and none goes to the GA4 endpoint.
\<close>

theorem no_ctm_match_responds_204:
  assumes body: "json req = Inr webhookData" "\<not> nullish webhookData"
    and phone: "phoneNumber = ownProp webhookData ''phoneNumber''" "truthy phoneNumber"
    and lookup:
      "fst (checkPhoneNumberInCTM e phoneNumber) = Inr JNull
       \<or> fst (checkPhoneNumberInCTM e phoneNumber) = Inr (JArr [])
       \<or> (\<exists>s err. phoneNumber = JStr s
             \<and> axios_post e (ctmRequest e (replaceNonDigits s)) = Rejected err)"
  shows "fst (POST e req) = NextResponse None 204
         \<and> outbound (snd (POST e req)) = outbound (snd (checkPhoneNumberInCTM e phoneNumber))
         \<and> ga4Endpoint e \<notin> url ` set (outbound (snd (POST e req)))"
proof -
  from lookup have "fst (checkPhoneNumberInCTM e phoneNumber) = Inr JNull
      \<or> fst (checkPhoneNumberInCTM e phoneNumber) = Inr (JArr [])"
    using checkPhoneNumberInCTM_rejected by blast
  then obtain ctmData t where
    res: "checkPhoneNumberInCTM e phoneNumber = (Inr ctmData, t)"
    and none: "ctmData = JNull \<or> ctmData = JArr []"
    using checkPhoneNumberInCTM_pair by metis
  from none have skip: "\<not> truthy ctmData \<or> ownProp ctmData ''length'' = JNum 0"
    by auto
  have post: "POST e req =
     (NextResponse None 204,
      ConsoleLog [JStr ''Received webhook data:'', webhookData] # t @
      [ ConsoleLog [JStr ''CTM Data:'', ctmData],
        ConsoleLog [JStr ''No matching phone number in CTM. Skipping.''] ])"
    using body phone res skip by (intro POST_no_match) simp_all
  have out: "outbound (snd (POST e req)) = outbound (snd (checkPhoneNumberInCTM e phoneNumber))"
    by (simp add: post res outbound_append)
  show ?thesis
    using ga4_not_in_lookup [of e phoneNumber] by (simp add: out) (simp add: post)
qed

theorem no_ctm_match_responds_204_witness:
  "json sale_request = Inr sale \<and> \<not> nullish sale
   \<and> truthy (ownProp sale ''phoneNumber'')
   \<and> axios_post (world (Rejected network_error) (Resolved ga4_accepted) instant)
        (ctmRequest (world (Rejected network_error) (Resolved ga4_accepted) instant)
           (replaceNonDigits ''+1 (555) 123-4567''))
       = Rejected network_error
   \<and> fst (POST (world (Rejected network_error) (Resolved ga4_accepted) instant) sale_request)
       = NextResponse None 204
   \<and> outbound (snd (POST (world (Rejected network_error) (Resolved ga4_accepted) instant)
                      sale_request))
       = [ctmRequest (world (Rejected network_error) (Resolved ga4_accepted) instant)
            ''15551234567'']"
proof -
  let ?e = "world (Rejected network_error) (Resolved ga4_accepted) instant"
  have h3: "JStr ''+1 (555) 123-4567'' = ownProp sale ''phoneNumber''"
    by (simp only: sale_phone)
  have h4: "truthy (JStr ''+1 (555) 123-4567'')"
    by simp
  have down: "axios_post ?e (ctmRequest ?e (replaceNonDigits ''+1 (555) 123-4567''))
       = Rejected network_error"
    by (rule world_ctm)
  then have h5: "fst (checkPhoneNumberInCTM ?e (JStr ''+1 (555) 123-4567'')) = Inr JNull
       \<or> fst (checkPhoneNumberInCTM ?e (JStr ''+1 (555) 123-4567'')) = Inr (JArr [])
       \<or> (\<exists>s err. JStr ''+1 (555) 123-4567'' = JStr s
             \<and> axios_post ?e (ctmRequest ?e (replaceNonDigits s)) = Rejected err)"
    by blast
  note r = no_ctm_match_responds_204 [OF sale_request_json sale_not_nullish h3 h4 h5]
  from r have r1: "fst (POST ?e sale_request) = NextResponse None 204"
    by (rule conjunct1)
  from r have r2: "outbound (snd (POST ?e sale_request))
      = outbound (snd (checkPhoneNumberInCTM ?e (JStr ''+1 (555) 123-4567'')))"
    by (rule conjunct1 [OF conjunct2])
  have o: "outbound (snd (checkPhoneNumberInCTM ?e (JStr ''+1 (555) 123-4567'')))
      = [ctmRequest ?e ''15551234567'']"
    by (simp only: checkPhoneNumberInCTM_outbound digits_sale jsval.case)
  have h4': "truthy (ownProp sale ''phoneNumber'')"
    using h4 by (simp only: sale_phone)
  show ?thesis
    using sale_request_json sale_not_nullish h4' down r1 r2 [unfolded o] by (intro conjI)
qed

text \<open>
  Claim C6. For every request for which the CTM lookup returns at least one record and
  the GA4 forwarder, called with the transaction id, the revenue and the attribution of
  those records, returns a response, the handler responds 200 with the body
  \<^verbatim>\<open>{message: "Data successfully sent to GA4", ga4Status: s}\<close>, \<^verbatim>\<open>s\<close> the status
  of the GA4 response.
\<close>

theorem forwarded_responds_200:
  assumes body: "json req = Inr webhookData" "\<not> nullish webhookData"
    and phone: "truthy (ownProp webhookData ''phoneNumber'')"
    and lookup:
      "fst (checkPhoneNumberInCTM e (ownProp webhookData ''phoneNumber''))
         = Inr (JArr (call # calls))"
    and attr: "determineAttribution (JArr (call # calls)) = Inr a"
    and sent:
      "fst (sendToGA4 e (ownProp webhookData ''transactionId'')
              (ownProp webhookData ''totalAmountExcludingTax'')
              (source a) (medium a) (campaign a)) = Inr ga4Response"
  shows "fst (POST e req) =
           NextResponse_json
             (JObj
                [ (''message'', JStr ''Data successfully sent to GA4''),
                  (''ga4Status'', JNum (of_int (status ga4Response))) ])
             200"
proof -
  obtain t where res:
    "checkPhoneNumberInCTM e (ownProp webhookData ''phoneNumber'')
       = (Inr (JArr (call # calls)), t)"
    using checkPhoneNumberInCTM_pair [OF lookup] by blast
  obtain t3 where snt:
    "sendToGA4 e (ownProp webhookData ''transactionId'')
       (ownProp webhookData ''totalAmountExcludingTax'')
       (source a) (medium a) (campaign a) = (Inr ga4Response, t3)"
    using sendToGA4_pair [OF sent] by blast
  have "truthy (JArr (call # calls))" and "ownProp (JArr (call # calls)) ''length'' \<noteq> JNum 0"
    by simp_all
  with body phone res attr snt show ?thesis
    by (simp add: POST_forwarded)
qed

theorem forwarded_responds_200_witness:
  "json sale_request = Inr sale \<and> \<not> nullish sale
   \<and> truthy (ownProp sale ''phoneNumber'')
   \<and> fst (checkPhoneNumberInCTM (world ctm_found (Resolved ga4_accepted) instant)
           (ownProp sale ''phoneNumber'')) = Inr (JArr [call_bing])
   \<and> determineAttribution (JArr [call_bing])
       = Inr \<lparr> source = JStr ''bing'', medium = JStr ''organic'', campaign = JNull \<rparr>
   \<and> fst (sendToGA4 (world ctm_found (Resolved ga4_accepted) instant)
           (JStr ''T-1001'') (JNum 250) (JStr ''bing'') (JStr ''organic'') JNull)
       = Inr ga4_accepted
   \<and> fst (POST (world ctm_found (Resolved ga4_accepted) instant) sale_request) =
       NextResponse_json
         (JObj [(''message'', JStr ''Data successfully sent to GA4''), (''ga4Status'', JNum 204)])
         200"
proof -
  let ?e = "world ctm_found (Resolved ga4_accepted) instant"
  let ?a = "\<lparr> source = JStr ''bing'', medium = JStr ''organic'', campaign = JNull \<rparr>"
  have h3: "truthy (ownProp sale ''phoneNumber'')"
    by (simp add: sale_phone)
  have h4: "fst (checkPhoneNumberInCTM ?e (ownProp sale ''phoneNumber'')) = Inr (JArr [call_bing])"
    by (simp only: sale_phone lookup_found)
  have sent: "fst (sendToGA4 ?e (JStr ''T-1001'') (JNum 250) (JStr ''bing'') (JStr ''organic'') JNull)
      = Inr ga4_accepted"
    by (rule sendToGA4_resolved) (rule world_ga4)
  then have h6: "fst (sendToGA4 ?e (ownProp sale ''transactionId'')
      (ownProp sale ''totalAmountExcludingTax'') (source ?a) (medium ?a) (campaign ?a))
      = Inr ga4_accepted"
    by (simp add: sale_transaction sale_revenue)
  have st: "status ga4_accepted = 204"
    by (simp add: ga4_accepted_def)
  note r = forwarded_responds_200
    [OF sale_request_json sale_not_nullish h3 h4 attribution_bing h6]
  from r have r1: "fst (POST ?e sale_request) =
       NextResponse_json
         (JObj [(''message'', JStr ''Data successfully sent to GA4''), (''ga4Status'', JNum 204)])
         200"
    by (simp add: st)
  show ?thesis
    using sale_request_json sale_not_nullish h3 h4 attribution_bing sent r1 by (intro conjI)
qed

text \<open>
  Claim C3. When the post to GA4 is rejected, \<^verbatim>\<open>sendToGA4\<close> throws that same error
  to its caller, and the handler, whose lookup had returned records, responds 500 with
  the body \<^verbatim>\<open>{message: "Internal Server Error", error: m}\<close>, \<^verbatim>\<open>m\<close> the message
  of the error: nothing of the CTM result is in the response.
\<close>

theorem ga4_failure_responds_500:
  assumes body: "json req = Inr webhookData" "\<not> nullish webhookData"
    and phone: "truthy (ownProp webhookData ''phoneNumber'')"
    and lookup:
      "fst (checkPhoneNumberInCTM e (ownProp webhookData ''phoneNumber''))
         = Inr (JArr (call # calls))"
    and attr: "determineAttribution (JArr (call # calls)) = Inr a"
    and failed:
      "axios_post e
         (ga4Request e (ownProp webhookData ''transactionId'')
            (ownProp webhookData ''totalAmountExcludingTax'')
            (source a) (medium a) (campaign a)) = Rejected err"
  shows "fst (sendToGA4 e (ownProp webhookData ''transactionId'')
                (ownProp webhookData ''totalAmountExcludingTax'')
                (source a) (medium a) (campaign a)) = Inl err
         \<and> fst (POST e req) =
             NextResponse_json
               (JObj
                  [ (''message'', JStr ''Internal Server Error''),
                    (''error'', JStr (message err)) ])
               500"
proof -
  have thrown:
    "fst (sendToGA4 e (ownProp webhookData ''transactionId'')
            (ownProp webhookData ''totalAmountExcludingTax'')
            (source a) (medium a) (campaign a)) = Inl err"
    using failed by (rule sendToGA4_rejected)
  obtain t where res:
    "checkPhoneNumberInCTM e (ownProp webhookData ''phoneNumber'')
       = (Inr (JArr (call # calls)), t)"
    using checkPhoneNumberInCTM_pair [OF lookup] by blast
  obtain t3 where snt:
    "sendToGA4 e (ownProp webhookData ''transactionId'')
       (ownProp webhookData ''totalAmountExcludingTax'')
       (source a) (medium a) (campaign a) = (Inl err, t3)"
    using sendToGA4_pair [OF thrown] by blast
  have "truthy (JArr (call # calls))" and "ownProp (JArr (call # calls)) ''length'' \<noteq> JNum 0"
    by simp_all
  with body phone res attr snt have
    "fst (POST e req) =
       NextResponse_json
         (JObj [(''message'', JStr ''Internal Server Error''), (''error'', JStr (message err))])
         500"
    by (simp add: POST_forward_failed)
  with thrown show ?thesis by (rule conjI)
qed

theorem ga4_failure_responds_500_witness:
  "json sale_request = Inr sale \<and> \<not> nullish sale
   \<and> truthy (ownProp sale ''phoneNumber'')
   \<and> fst (checkPhoneNumberInCTM (world ctm_found (Rejected server_error) instant)
           (ownProp sale ''phoneNumber'')) = Inr (JArr [call_bing])
   \<and> determineAttribution (JArr [call_bing])
       = Inr \<lparr> source = JStr ''bing'', medium = JStr ''organic'', campaign = JNull \<rparr>
   \<and> axios_post (world ctm_found (Rejected server_error) instant)
        (ga4Request (world ctm_found (Rejected server_error) instant)
           (JStr ''T-1001'') (JNum 250) (JStr ''bing'') (JStr ''organic'') JNull)
       = Rejected server_error
   \<and> fst (sendToGA4 (world ctm_found (Rejected server_error) instant)
           (JStr ''T-1001'') (JNum 250) (JStr ''bing'') (JStr ''organic'') JNull)
       = Inl server_error
   \<and> fst (POST (world ctm_found (Rejected server_error) instant) sale_request) =
       NextResponse_json
         (JObj
            [ (''message'', JStr ''Internal Server Error''),
              (''error'', JStr ''Request failed with status code 500'') ])
         500"
proof -
  let ?e = "world ctm_found (Rejected server_error) instant"
  let ?a = "\<lparr> source = JStr ''bing'', medium = JStr ''organic'', campaign = JNull \<rparr>"
  have h3: "truthy (ownProp sale ''phoneNumber'')"
    by (simp add: sale_phone)
  have h4: "fst (checkPhoneNumberInCTM ?e (ownProp sale ''phoneNumber'')) = Inr (JArr [call_bing])"
    by (simp only: sale_phone lookup_found)
  have failed: "axios_post ?e
      (ga4Request ?e (JStr ''T-1001'') (JNum 250) (JStr ''bing'') (JStr ''organic'') JNull)
      = Rejected server_error"
    by (rule world_ga4)
  then have h6: "axios_post ?e
      (ga4Request ?e (ownProp sale ''transactionId'') (ownProp sale ''totalAmountExcludingTax'')
         (source ?a) (medium ?a) (campaign ?a)) = Rejected server_error"
    by (simp add: sale_transaction sale_revenue)
  have msg: "message server_error = ''Request failed with status code 500''"
    by (simp add: server_error_def)
  note r = ga4_failure_responds_500
    [OF sale_request_json sale_not_nullish h3 h4 attribution_bing h6]
  from r have r1: "fst (sendToGA4 ?e (JStr ''T-1001'') (JNum 250) (JStr ''bing'')
      (JStr ''organic'') JNull) = Inl server_error"
    by (simp add: sale_transaction sale_revenue)
  from r have r2: "fst (POST ?e sale_request) =
       NextResponse_json
         (JObj
            [ (''message'', JStr ''Internal Server Error''),
              (''error'', JStr ''Request failed with status code 500'') ])
         500"
    by (simp add: msg)
  show ?thesis
    using sale_request_json sale_not_nullish h3 h4 attribution_bing failed r1 r2
    by (intro conjI)
qed

section \<open>The GA4 event\<close>

subsection \<open>Decimal numerals determine the number\<close>

lemma below_ten: "d < 10 \<Longrightarrow> d \<in> {0, 1, 2, 3, 4, 5, 6, 7, 8, 9 :: nat}"
  by auto

lemma digit_val_digit_char: "d < 10 \<Longrightarrow> digit_val (digit_char d) = d"
  using below_ten [of d] by (auto simp: digit_val_def digit_char_def)

lemma isDigit_digit_char: "d < 10 \<Longrightarrow> isDigit (digit_char d)"
  using below_ten [of d] by (auto simp: isDigit_def digit_char_def)

lemma readNat_showNat: "readNat (showNat n) = n"
proof (induction n rule: showNat.induct)
  case (1 n)
  show ?case
  proof (cases "n < 10")
    case True
    then show ?thesis
      by (simp add: showNat.simps [of n] readNat_def digit_val_digit_char)
  next
    case False
    with "1" have "readNat (showNat (n div 10)) = n div 10"
      by simp
    with False show ?thesis
      by (simp add: showNat.simps [of n] readNat_def digit_val_digit_char)
  qed
qed

lemma showNat_inj: "showNat a = showNat b \<Longrightarrow> a = b"
  by (metis readNat_showNat)

lemma showNat_digits: "list_all isDigit (showNat n)"
proof (induction n rule: showNat.induct)
  case (1 n)
  then show ?case
    by (cases "n < 10") (simp_all add: showNat.simps [of n] isDigit_digit_char)
qed

lemma showNat_no_minus: "showNat n \<noteq> CHR ''-'' # cs"
proof
  assume "showNat n = CHR ''-'' # cs"
  with showNat_digits [of n] have "isDigit CHR ''-''"
    by simp
  then show False
    by (simp add: isDigit_def)
qed

lemma showInt_inj: "showInt a = showInt b \<longleftrightarrow> a = b"
proof
  assume eq: "showInt a = showInt b"
  show "a = b"
  proof (cases "a < 0")
    case True
    note a = this
    show ?thesis
    proof (cases "b < 0")
      case True
      with a eq have "nat (- a) = nat (- b)"
        by (simp add: showInt_def showNat_inj)
      with a True show ?thesis
        by simp
    next
      case False
      with a eq show ?thesis
        using showNat_no_minus [of "nat b" "showNat (nat (- a))"] by (simp add: showInt_def)
    qed
  next
    case False
    note a = this
    show ?thesis
    proof (cases "b < 0")
      case True
      with a eq show ?thesis
        using showNat_no_minus [of "nat a" "showNat (nat (- b))"] by (simp add: showInt_def)
    next
      case False
      with a eq have "nat a = nat b"
        by (simp add: showInt_def showNat_inj)
      with a False show ?thesis
        by simp
    qed
  qed
qed simp

lemma clientId_inj: "clientId a = clientId b \<longleftrightarrow> a = b"
  by (simp add: clientId_def showInt_inj)

lemma clientId_instant: "clientId instant = ''12345678.1762063200000''"
  by (simp add: clientId_def showInt_def showNat.simps digit_char_def instant_def)

lemma clientId_next: "clientId (instant + 1) = ''12345678.1762063200001''"
  by (simp add: clientId_def showInt_def showNat.simps digit_char_def instant_def)

lemma world_now: "Date_now (world c g n) = n"
  by (simp add: world_def)

subsection \<open>The payload\<close>

text \<open>
  Claim C5, as amended. For every transaction id, revenue and attribution triple,
  \<^verbatim>\<open>sendToGA4\<close> posts exactly one request, to the collection endpoint, whose payload
  holds exactly one event, named \<^verbatim>\<open>phone_purchase\<close>, with the given
  \<^verbatim>\<open>transaction_id\<close>, \<^verbatim>\<open>value\<close> the revenue, \<^verbatim>\<open>currency\<close> \<^verbatim>\<open>USD\<close>, and
  source, medium and campaign each replaced by \<^verbatim>\<open>unknown\<close> whenever it is falsy:
  \<^verbatim>\<open>null\<close>, absent, or the empty string (also \<^verbatim>\<open>0\<close>, \<^verbatim>\<open>false\<close>, \<^verbatim>\<open>NaN\<close>).
  The \<^verbatim>\<open>client_id\<close> is the prefix \<^verbatim>\<open>12345678.\<close> followed by the reading of
  \<^verbatim>\<open>Date.now()\<close> in decimal.
\<close>

theorem sendToGA4_posts_one_phone_purchase:
  "outbound (snd (sendToGA4 e transactionId revenue src med camp)) =
     [ \<lparr> url = ga4Endpoint e,
         payload =
           JObj
             [ (''client_id'', JStr (''12345678.'' @ showInt (Date_now e))),
               (''events'',
                JArr
                  [ JObj
                      [ (''name'', JStr ''phone_purchase''),
                        (''params'',
                         JObj
                           [ (''transaction_id'', transactionId),
                             (''value'', revenue),
                             (''currency'', JStr ''USD''),
                             (''source'', if truthy src then src else JStr ''unknown''),
                             (''medium'', if truthy med then med else JStr ''unknown''),
                             (''campaign'', if truthy camp then camp else JStr ''unknown'') ]) ] ]) ],
         headers = [(''Content-Type'', ''application/json'')] \<rparr> ]"
  by (simp add: sendToGA4_outbound ga4Request_def ga4Payload_def clientId_def orElse_def)

theorem sendToGA4_posts_one_phone_purchase_witness:
  "outbound (snd (sendToGA4 (world ctm_found (Resolved ga4_accepted) instant)
                    (JStr ''T-1001'') (JNum 250) (JStr ''bing'') (JStr ''organic'') JNull)) =
     [ \<lparr> url = ''https://www.google-analytics.com/mp/collect?measurement_id=G-TEST&api_secret=s3cret'',
         payload =
           JObj
             [ (''client_id'', JStr ''12345678.1762063200000''),
               (''events'',
                JArr
                  [ JObj
                      [ (''name'', JStr ''phone_purchase''),
                        (''params'',
                         JObj
                           [ (''transaction_id'', JStr ''T-1001''),
                             (''value'', JNum 250),
                             (''currency'', JStr ''USD''),
                             (''source'', JStr ''bing''),
                             (''medium'', JStr ''organic''),
                             (''campaign'', JStr ''unknown'') ]) ] ]) ],
         headers = [(''Content-Type'', ''application/json'')] \<rparr> ]"
proof -
  have ep: "ga4Endpoint (world ctm_found (Resolved ga4_accepted) instant)
      = ''https://www.google-analytics.com/mp/collect?measurement_id=G-TEST&api_secret=s3cret''"
    by (simp add: ga4Endpoint_def world_def template_def)
  have cid: "''12345678.'' @ showInt (Date_now (world ctm_found (Resolved ga4_accepted) instant))
      = ''12345678.1762063200000''"
    using clientId_instant by (simp only: world_now clientId_def)
  show ?thesis
    using sendToGA4_posts_one_phone_purchase
      [of "world ctm_found (Resolved ga4_accepted) instant"
          "JStr ''T-1001''" "JNum 250" "JStr ''bing''" "JStr ''organic''" JNull]
    by (simp only: ep cid truthy.simps if_True if_False list.simps not_False_eq_True)
qed

text \<open>
  The claim as stated fails on a medium that is the empty string, as a CTM record with
  a source and an empty medium gives it: it is neither \<^verbatim>\<open>null\<close> nor absent, and the
  event carries \<^verbatim>\<open>unknown\<close>.
\<close>

theorem empty_medium_counterexample:
  "outbound (snd (sendToGA4 (world ctm_found (Resolved ga4_accepted) instant)
                    (JStr ''T-1001'') (JNum 250) (JStr ''google'') (JStr []) JNull))
     = [ga4Request (world ctm_found (Resolved ga4_accepted) instant)
          (JStr ''T-1001'') (JNum 250) (JStr ''google'') (JStr []) JNull]
   \<and> eventParam
        (payload (ga4Request (world ctm_found (Resolved ga4_accepted) instant)
                    (JStr ''T-1001'') (JNum 250) (JStr ''google'') (JStr []) JNull))
        ''medium'' = [JStr ''unknown'']
   \<and> eventParam
        (ga4Payload_as_claimed (world ctm_found (Resolved ga4_accepted) instant)
           (JStr ''T-1001'') (JNum 250) (JStr ''google'') (JStr []) JNull)
        ''medium'' = [JStr []]
   \<and> payload (ga4Request (world ctm_found (Resolved ga4_accepted) instant)
                 (JStr ''T-1001'') (JNum 250) (JStr ''google'') (JStr []) JNull)
       \<noteq> ga4Payload_as_claimed (world ctm_found (Resolved ga4_accepted) instant)
            (JStr ''T-1001'') (JNum 250) (JStr ''google'') (JStr []) JNull"
  by (simp add: sendToGA4_outbound ga4Request_def ga4Payload_def ga4Payload_as_claimed_def
      eventParam_def elements_def orElse_def unknownWhenAbsent_def)

subsection \<open>Client identifiers of two sends\<close>

text \<open>A response with status 200 comes from the last branch only: both posts were made.\<close>

lemma POST_200_outbound:
  assumes ok: "resp_status (fst (POST e req)) = 200"
  shows "\<exists>n tid revenue s m c.
           outbound (snd (POST e req)) = [ctmRequest e n, ga4Request e tid revenue s m c]"
proof (cases "json req")
  case (Inl err)
  from POST_parse_error [OF Inl, of e] ok show ?thesis
    by (simp add: NextResponse_json_def)
next
  case (Inr w)
  show ?thesis
  proof (cases "nullish w")
    case True
    from POST_nullish_body [OF Inr True, of e] ok show ?thesis
      by (simp add: NextResponse_json_def)
  next
    case False
    note w = this
    show ?thesis
    proof (cases "truthy (ownProp w ''phoneNumber'')")
      case False
      from POST_falsy_phone [OF Inr w False, of e] ok show ?thesis
        by (simp add: NextResponse_json_def)
    next
      case True
      note phone = this
      obtain r t where chk: "checkPhoneNumberInCTM e (ownProp w ''phoneNumber'') = (r, t)"
        by (cases "checkPhoneNumberInCTM e (ownProp w ''phoneNumber'')") simp
      show ?thesis
      proof (cases r)
        case (Inl err)
        from POST_lookup_throws [OF Inr w phone chk [unfolded Inl]] ok show ?thesis
          by (simp add: NextResponse_json_def)
      next
        case r: (Inr ctmData)
        note chk' = chk [unfolded r]
        show ?thesis
        proof (cases "\<not> truthy ctmData \<or> ownProp ctmData ''length'' = JNum 0")
          case True
          from POST_no_match [OF Inr w phone chk' True] ok show ?thesis
            by simp
        next
          case False
          then have found: "truthy ctmData" "ownProp ctmData ''length'' \<noteq> JNum 0"
            by simp_all
          obtain a where attr: "determineAttribution ctmData = Inr a"
            using determineAttribution_total by blast
          obtain g t3 where snt:
            "sendToGA4 e (ownProp w ''transactionId'') (ownProp w ''totalAmountExcludingTax'')
               (source a) (medium a) (campaign a) = (g, t3)"
            by (cases "sendToGA4 e (ownProp w ''transactionId'')
               (ownProp w ''totalAmountExcludingTax'') (source a) (medium a) (campaign a)") simp
          from checkPhoneNumberInCTM_Inr [OF chk'] obtain s where
            t: "outbound t = [ctmRequest e (replaceNonDigits s)]"
            by blast
          note t3 = sendToGA4_trace [OF snt]
          show ?thesis
          proof (cases g)
            case (Inl err)
            from POST_forward_failed [OF Inr w phone chk' found attr snt [unfolded Inl]] ok
            show ?thesis
              by (simp add: NextResponse_json_def)
          next
            case g: (Inr resp)
            from POST_forwarded [OF Inr w phone chk' found attr snt [unfolded g]]
            have "outbound (snd (POST e req)) =
                [ctmRequest e (replaceNonDigits s),
                 ga4Request e (ownProp w ''transactionId'') (ownProp w ''totalAmountExcludingTax'')
                   (source a) (medium a) (campaign a)]"
              by (simp add: outbound_append t t3)
            then show ?thesis
              by blast
          qed
        qed
      qed
    qed
  qed
qed

lemma ga4ClientIds_pair:
  "outbound t = [ctmRequest e n, ga4Request e tid revenue s m c] \<Longrightarrow>
   ga4ClientIds e t = [JStr (clientId (Date_now e))]"
  using ctmUrl_not_ga4Endpoint [of e]
  by (simp add: ga4ClientIds_def ctmRequest_def ga4Request_def ga4Payload_def)

lemma POST_200_clientIds:
  "resp_status (fst (POST e req)) = 200 \<Longrightarrow>
   ga4ClientIds e (snd (POST e req)) = [JStr (clientId (Date_now e))]"
  using POST_200_outbound ga4ClientIds_pair by blast

lemma POST_sale_forwarded:
  "resp_status (fst (POST (world ctm_found (Resolved g) n) sale_request)) = 200"
proof -
  let ?e = "world ctm_found (Resolved g) n"
  let ?a = "\<lparr> source = JStr ''bing'', medium = JStr ''organic'', campaign = JNull \<rparr>"
  obtain t where res:
    "checkPhoneNumberInCTM ?e (ownProp sale ''phoneNumber'') = (Inr (JArr [call_bing]), t)"
    using checkPhoneNumberInCTM_pair [OF lookup_found] by (simp only: sale_phone) blast
  have "fst (sendToGA4 ?e (ownProp sale ''transactionId'')
      (ownProp sale ''totalAmountExcludingTax'') (source ?a) (medium ?a) (campaign ?a)) = Inr g"
    by (rule sendToGA4_resolved) (rule world_ga4)
  then obtain t3 where snt:
    "sendToGA4 ?e (ownProp sale ''transactionId'')
      (ownProp sale ''totalAmountExcludingTax'') (source ?a) (medium ?a) (campaign ?a)
      = (Inr g, t3)"
    using sendToGA4_pair by blast
  have phone: "truthy (ownProp sale ''phoneNumber'')"
    by (simp add: sale_phone)
  have found: "truthy (JArr [call_bing])" "ownProp (JArr [call_bing]) ''length'' \<noteq> JNum 0"
    by simp_all
  from POST_forwarded
    [OF sale_request_json sale_not_nullish phone res found attribution_bing snt]
  show ?thesis
    by (simp add: NextResponse_json_def)
qed

text \<open>
  Claim C8, as amended. When the same payload is sent twice and both sends end with
  status 200, each send posts exactly one GA4 event, whose client identifier is the
  prefix followed by the reading of the clock at that send; the two identifiers differ
  exactly when the two readings differ. Two sends within one millisecond carry the same
  identifier.
\<close>

theorem two_sends_client_ids:
  assumes "resp_status (fst (POST e1 req)) = 200" and "resp_status (fst (POST e2 req)) = 200"
  shows "ga4ClientIds e1 (snd (POST e1 req)) = [JStr (clientId (Date_now e1))]
         \<and> ga4ClientIds e2 (snd (POST e2 req)) = [JStr (clientId (Date_now e2))]
         \<and> (ga4ClientIds e1 (snd (POST e1 req)) = ga4ClientIds e2 (snd (POST e2 req))
              \<longleftrightarrow> Date_now e1 = Date_now e2)"
  using assms by (simp add: POST_200_clientIds clientId_inj)

theorem two_sends_client_ids_witness:
  "resp_status (fst (POST (world ctm_found (Resolved ga4_accepted) instant) sale_request)) = 200
   \<and> resp_status
        (fst (POST (world ctm_found (Resolved ga4_accepted) (instant + 1)) sale_request)) = 200
   \<and> ga4ClientIds (world ctm_found (Resolved ga4_accepted) instant)
        (snd (POST (world ctm_found (Resolved ga4_accepted) instant) sale_request))
       = [JStr ''12345678.1762063200000'']
   \<and> ga4ClientIds (world ctm_found (Resolved ga4_accepted) (instant + 1))
        (snd (POST (world ctm_found (Resolved ga4_accepted) (instant + 1)) sale_request))
       = [JStr ''12345678.1762063200001'']
   \<and> ga4ClientIds (world ctm_found (Resolved ga4_accepted) instant)
        (snd (POST (world ctm_found (Resolved ga4_accepted) instant) sale_request))
       \<noteq> ga4ClientIds (world ctm_found (Resolved ga4_accepted) (instant + 1))
            (snd (POST (world ctm_found (Resolved ga4_accepted) (instant + 1)) sale_request))"
proof -
  let ?e1 = "world ctm_found (Resolved ga4_accepted) instant"
  let ?e2 = "world ctm_found (Resolved ga4_accepted) (instant + 1)"
  have h1: "resp_status (fst (POST ?e1 sale_request)) = 200"
    by (rule POST_sale_forwarded)
  have h2: "resp_status (fst (POST ?e2 sale_request)) = 200"
    by (rule POST_sale_forwarded)
  note r = two_sends_client_ids [OF h1 h2]
  from r have r1: "ga4ClientIds ?e1 (snd (POST ?e1 sale_request)) = [JStr ''12345678.1762063200000'']"
    by (simp add: world_now clientId_instant)
  from r have r2: "ga4ClientIds ?e2 (snd (POST ?e2 sale_request)) = [JStr ''12345678.1762063200001'']"
    by (simp add: world_now clientId_next)
  from r have r3: "ga4ClientIds ?e1 (snd (POST ?e1 sale_request))
      \<noteq> ga4ClientIds ?e2 (snd (POST ?e2 sale_request))"
    by (simp add: world_now clientId_inj)
  show ?thesis
    using h1 h2 r1 r2 r3 by (intro conjI)
qed

text \<open>
  The claim as stated fails when the clock reads the same millisecond at both sends:
  both succeed, and the two events carry the same client identifier.
\<close>

theorem same_millisecond_counterexample:
  "resp_status (fst (POST (world ctm_found (Resolved ga4_accepted) instant) sale_request)) = 200
   \<and> resp_status (fst (POST (world ctm_found (Resolved ga4_ok) instant) sale_request)) = 200
   \<and> ga4ClientIds (world ctm_found (Resolved ga4_accepted) instant)
        (snd (POST (world ctm_found (Resolved ga4_accepted) instant) sale_request))
       = [JStr ''12345678.1762063200000'']
   \<and> ga4ClientIds (world ctm_found (Resolved ga4_ok) instant)
        (snd (POST (world ctm_found (Resolved ga4_ok) instant) sale_request))
       = [JStr ''12345678.1762063200000'']"
  by (simp add: POST_sale_forwarded POST_200_clientIds world_now clientId_instant)

end
